theory Spec2Isabelle
  imports Complex_Main
begin

section \<open>Python numbers\<close>

text \<open>
  The program is one Python module, \<^verbatim>\<open>app.py\<close>. Its numbers are Python ints (unbounded)
  and floats (IEEE doubles). A double is a real number or one of the three special values;
  the two zeros of a double are one value here, as \<^verbatim>\<open>==\<close> has it. Which reals are doubles
  is not modelled: the functions below accept every real, and what they state of every
  real holds of every double.
\<close>

datatype pyfloat = Fin real | PosInf | NegInf | NaN

type_synonym pycomplex = "pyfloat \<times> pyfloat"

text \<open>An argument that is a Python int or float, and a result of \<^verbatim>\<open>**\<close>, which is a float
  or a complex number.\<close>

datatype number = PyInt int | PyFlt pyfloat

datatype pynum = PyFloat pyfloat | PyComplex pycomplex

text \<open>
  The exceptions the module can raise on JSON input: \<^verbatim>\<open>TypeError\<close> in three ways
  (arithmetic on a value that is not a number, \<^verbatim>\<open>int()\<close> of a complex number,
  \<^verbatim>\<open>round()\<close> of a value whose type has no \<^verbatim>\<open>__round__\<close>), \<^verbatim>\<open>OverflowError\<close> (a
  power or a conversion whose result exceeds the doubles, \<^verbatim>\<open>int()\<close> of an infinity) and
  \<^verbatim>\<open>ValueError\<close> (\<^verbatim>\<open>int()\<close> of a nan).
\<close>

datatype py_error =
  Unsupported_operand | Int_of_complex | Round_undefined | OverflowError | ValueError

text \<open>A value decoded from a JSON document; \<open>JOther\<close> is a string, an array or an object.
  Python's \<^verbatim>\<open>bool\<close> is a subclass of \<^verbatim>\<open>int\<close>, so \<^verbatim>\<open>True\<close> computes as 1.\<close>

datatype jval = JNull | JBool bool | JNum number | JOther

fun as_number :: "jval \<Rightarrow> number option" where
  "as_number (JNum x) = Some x"
| "as_number (JBool b) = Some (PyInt (if b then 1 else 0))"
| "as_number JNull = None"
| "as_number JOther = None"

section \<open>Float arithmetic\<close>

text \<open>
  What the float unit, the C library and numpy compute is not part of \<^verbatim>\<open>app.py\<close>. It is
  a parameter of the model:
  \<^item> \<open>rnd x\<close> is the double an operation returns when its exact result is the nonzero real
    \<open>x\<close>: a finite double, or an infinity when \<open>x\<close> is out of range;
  \<^item> \<open>c_pow x y\<close> is C's \<^verbatim>\<open>pow\<close> on a finite base \<open>x > 0\<close> and \<open>c_log10 x\<close> is numpy's
    \<^verbatim>\<open>log10\<close> on a finite \<open>x > 0\<close>;
  \<^item> \<open>np_round_fin x n\<close> is numpy's rounding of a finite \<open>x\<close> to \<open>n\<close> decimals;
  \<^item> \<open>cx_pow x y\<close> is Python's complex power of a finite base \<open>x < 0\<close>, \<open>cx_times c z\<close>
    the product of a float and a complex number, \<open>cx_square z\<close> the square of a complex
    number (\<open>None\<close> when it overflows).
  Every statement below that names an arithmetic \<open>A\<close> holds for each choice of these
  functions, so for the ones of the machine.
\<close>

record arith =
  rnd :: "real \<Rightarrow> pyfloat"
  c_pow :: "real \<Rightarrow> real \<Rightarrow> pyfloat"
  c_log10 :: "real \<Rightarrow> pyfloat"
  np_round_fin :: "real \<Rightarrow> nat \<Rightarrow> pyfloat"
  cx_pow :: "real \<Rightarrow> real \<Rightarrow> pycomplex"
  cx_times :: "pyfloat \<Rightarrow> pycomplex \<Rightarrow> pycomplex"
  cx_square :: "pycomplex \<Rightarrow> pycomplex option"

text \<open>The doubles that the source's literals and constant expressions denote: \<^verbatim>\<open>np.pi\<close>,
  \<^verbatim>\<open>4 / 3\<close>, \<^verbatim>\<open>1 / 3\<close>, \<^verbatim>\<open>0.67\<close> and \<^verbatim>\<open>10.7\<close>. The others (\<^verbatim>\<open>0.5\<close>, \<^verbatim>\<open>1.5\<close>,
  \<^verbatim>\<open>4.184e15\<close> and the small integers) are doubles as written.\<close>

definition pi_d :: real where
  "pi_d = 884279719003555 / 281474976710656"

definition four_thirds_d :: real where
  "four_thirds_d = 6004799503160661 / 4503599627370496"

definition third_d :: real where
  "third_d = 6004799503160661 / 18014398509481984"

definition c067_d :: real where
  "c067_d = 6034823500676465 / 9007199254740992"

definition c107_d :: real where
  "c107_d = 3011782250804019 / 281474976710656"

text \<open>The sign of a float, and the IEEE product: a zero product of finite factors is zero,
  a nan factor gives nan, an infinity times zero is nan, and an infinity times anything
  else is the infinity of the product's sign.\<close>

fun fl_sign :: "pyfloat \<Rightarrow> int" where
  "fl_sign (Fin r) = (if 0 < r then 1 else if r < 0 then - 1 else 0)"
| "fl_sign PosInf = 1"
| "fl_sign NegInf = - 1"
| "fl_sign NaN = 0"

definition fl_mul_r :: "(real \<Rightarrow> pyfloat) \<Rightarrow> pyfloat \<Rightarrow> pyfloat \<Rightarrow> pyfloat" where
  "fl_mul_r rn x y =
     (case (x, y) of
        (Fin a, Fin b) \<Rightarrow> if a * b = 0 then Fin 0 else rn (a * b)
      | _ \<Rightarrow>
          if x = NaN \<or> y = NaN \<or> fl_sign x * fl_sign y = 0 then NaN
          else if 0 < fl_sign x * fl_sign y then PosInf else NegInf)"

definition fl_mul :: "arith \<Rightarrow> pyfloat \<Rightarrow> pyfloat \<Rightarrow> pyfloat" where
  "fl_mul A x y = fl_mul_r (rnd A) x y"

text \<open>Division by, and subtraction of, a positive finite constant: the source divides
  only by \<^verbatim>\<open>2\<close> and \<^verbatim>\<open>4.184e15\<close> and subtracts only \<^verbatim>\<open>10.7\<close>.\<close>

fun fl_div_pos :: "arith \<Rightarrow> pyfloat \<Rightarrow> real \<Rightarrow> pyfloat" where
  "fl_div_pos A (Fin a) c = (if a = 0 then Fin 0 else rnd A (a / c))"
| "fl_div_pos A x c = x"

fun fl_sub_fin :: "arith \<Rightarrow> pyfloat \<Rightarrow> real \<Rightarrow> pyfloat" where
  "fl_sub_fin A (Fin a) c = (if a - c = 0 then Fin 0 else rnd A (a - c))"
| "fl_sub_fin A x c = x"

text \<open>\<^verbatim>\<open>x > 0\<close>; a comparison with nan is false.\<close>

fun fl_gt0 :: "pyfloat \<Rightarrow> bool" where
  "fl_gt0 (Fin r) = (0 < r)"
| "fl_gt0 PosInf = True"
| "fl_gt0 NegInf = False"
| "fl_gt0 NaN = False"

text \<open>The conversion of an int to a float, as a mixed operation does it: the nearest
  double, \<^verbatim>\<open>OverflowError\<close> for an int beyond the doubles.\<close>

definition int_to_float :: "arith \<Rightarrow> int \<Rightarrow> py_error + pyfloat" where
  "int_to_float A n =
     (if n = 0 then Inr (Fin 0)
      else case rnd A (of_int n) of Fin r \<Rightarrow> Inr (Fin r) | _ \<Rightarrow> Inl OverflowError)"

fun to_float :: "arith \<Rightarrow> number \<Rightarrow> py_error + pyfloat" where
  "to_float A (PyInt n) = int_to_float A n"
| "to_float A (PyFlt x) = Inr x"

text \<open>\<^verbatim>\<open>numpy.log10\<close>: \<^verbatim>\<open>-inf\<close> at zero and \<^verbatim>\<open>nan\<close> below zero, with a warning and no
  exception.\<close>

fun np_log10 :: "arith \<Rightarrow> pyfloat \<Rightarrow> pyfloat" where
  "np_log10 A (Fin r) = (if 0 < r then c_log10 A r else if r = 0 then NegInf else NaN)"
| "np_log10 A PosInf = PosInf"
| "np_log10 A NegInf = NaN"
| "np_log10 A NaN = NaN"

text \<open>
  \<^verbatim>\<open>x ** y\<close> on a float \<open>x\<close> and a finite \<open>y > 0\<close>, after CPython's \<^verbatim>\<open>float_pow\<close>: the
  special values first, then zero, then a negative base (a complex number when the
  exponent is not an integer, else the sign is set aside), then the base 1, then C's
  \<^verbatim>\<open>pow\<close>, whose infinite result raises \<^verbatim>\<open>OverflowError\<close>. \<open>real_pow\<close> is the
  function without the complex branch, which an integer exponent never takes.
\<close>

definition is_int :: "real \<Rightarrow> bool" where
  "is_int y = (of_int \<lfloor>y\<rfloor> = y)"

definition odd_int :: "real \<Rightarrow> bool" where
  "odd_int y = (is_int y \<and> odd \<lfloor>y\<rfloor>)"

fun real_pow :: "arith \<Rightarrow> pyfloat \<Rightarrow> real \<Rightarrow> py_error + pyfloat" where
  "real_pow A NaN y = Inr NaN"
| "real_pow A PosInf y = Inr PosInf"
| "real_pow A NegInf y = Inr (if odd_int y then NegInf else PosInf)"
| "real_pow A (Fin r) y =
     (if r = 0 then Inr (Fin 0)
      else if \<bar>r\<bar> = 1 then Inr (Fin (if r < 0 \<and> odd_int y then - 1 else 1))
      else case c_pow A \<bar>r\<bar> y of
             Fin q \<Rightarrow> Inr (Fin (if r < 0 \<and> odd_int y then - q else q))
           | _ \<Rightarrow> Inl OverflowError)"

definition float_pow :: "arith \<Rightarrow> pyfloat \<Rightarrow> real \<Rightarrow> py_error + pynum" where
  "float_pow A x y =
     (case x of
        Fin r \<Rightarrow>
          if r < 0 \<and> \<not> is_int y then Inr (PyComplex (cx_pow A r y))
          else map_sum id PyFloat (real_pow A x y)
      | _ \<Rightarrow> map_sum id PyFloat (real_pow A x y))"

text \<open>\<^verbatim>\<open>int(v)\<close>: truncation toward zero.\<close>

definition trunc :: "real \<Rightarrow> int" where
  "trunc x = (if 0 \<le> x then \<lfloor>x\<rfloor> else \<lceil>x\<rceil>)"

fun py_int :: "pynum \<Rightarrow> py_error + int" where
  "py_int (PyFloat (Fin r)) = Inr (trunc r)"
| "py_int (PyFloat PosInf) = Inl OverflowError"
| "py_int (PyFloat NegInf) = Inl OverflowError"
| "py_int (PyFloat NaN) = Inl ValueError"
| "py_int (PyComplex z) = Inl Int_of_complex"

text \<open>
  \<^verbatim>\<open>round(x, n)\<close> with \<open>n \<ge> 0\<close>, which raises only on a value whose type has no
  \<^verbatim>\<open>__round__\<close>. On a Python float: the decimal nearest to the exact value of \<open>x\<close>, a tie
  going to the even neighbour, then the double nearest to that decimal; an infinity or a
  nan is returned as it is. On an int: the int itself. On a numpy float: numpy's
  rounding.
\<close>

definition round_half_even :: "real \<Rightarrow> int" where
  "round_half_even x =
     (let f = \<lfloor>x\<rfloor>; d = x - of_int f
      in if d < 1 / 2 then f else if 1 / 2 < d then f + 1 else if even f then f else f + 1)"

definition decimal_round :: "real \<Rightarrow> nat \<Rightarrow> real" where
  "decimal_round x n = of_int (round_half_even (x * 10 ^ n)) / 10 ^ n"

fun py_round :: "arith \<Rightarrow> pyfloat \<Rightarrow> nat \<Rightarrow> pyfloat" where
  "py_round A (Fin r) n =
     (if decimal_round r n = 0 then Fin 0 else rnd A (decimal_round r n))"
| "py_round A x n = x"

fun number_round :: "arith \<Rightarrow> number \<Rightarrow> nat \<Rightarrow> number" where
  "number_round A (PyInt k) n = PyInt k"
| "number_round A (PyFlt x) n = PyFlt (py_round A x n)"

fun pynum_round :: "arith \<Rightarrow> pynum \<Rightarrow> nat \<Rightarrow> py_error + pyfloat" where
  "pynum_round A (PyFloat x) n = Inr (py_round A x n)"
| "pynum_round A (PyComplex z) n = Inl Round_undefined"

definition jval_round :: "arith \<Rightarrow> jval \<Rightarrow> nat \<Rightarrow> py_error + number" where
  "jval_round A v n =
     (case as_number v of None \<Rightarrow> Inl Round_undefined | Some x \<Rightarrow> Inr (number_round A x n))"

fun np_round :: "arith \<Rightarrow> pyfloat \<Rightarrow> nat \<Rightarrow> pyfloat" where
  "np_round A (Fin r) n = np_round_fin A r n"
| "np_round A x n = x"

text \<open>Sequencing of steps that can raise.\<close>

definition bind_err :: "py_error + 'a \<Rightarrow> ('a \<Rightarrow> py_error + 'b) \<Rightarrow> py_error + 'b" where
  "bind_err m f = (case m of Inl e \<Rightarrow> Inl e | Inr x \<Rightarrow> f x)"

section \<open>Hazard calculations\<close>

text \<open>
  \<^verbatim>\<open>asteroid_kinetic_energy\<close> on arguments that are ints or floats. The steps that can
  raise are \<^verbatim>\<open>diameter_m / 2\<close> on an int beyond the doubles, \<^verbatim>\<open>radius ** 3\<close> and
  \<^verbatim>\<open>velocity ** 2\<close> on a float, and the conversion of an int factor to a float. An int
  velocity stays an int through \<^verbatim>\<open>* 1000\<close> and \<^verbatim>\<open>** 2\<close>.
\<close>

fun halve :: "arith \<Rightarrow> number \<Rightarrow> py_error + pyfloat" where
  "halve A (PyInt n) =
     (if n = 0 then Inr (Fin 0)
      else case rnd A (of_int n / 2) of Fin r \<Rightarrow> Inr (Fin r) | _ \<Rightarrow> Inl OverflowError)"
| "halve A (PyFlt x) = Inr (fl_div_pos A x 2)"

fun times_1000 :: "arith \<Rightarrow> number \<Rightarrow> number" where
  "times_1000 A (PyInt n) = PyInt (n * 1000)"
| "times_1000 A (PyFlt x) = PyFlt (fl_mul A x (Fin 1000))"

fun number_square :: "arith \<Rightarrow> number \<Rightarrow> py_error + number" where
  "number_square A (PyInt n) = Inr (PyInt (n ^ 2))"
| "number_square A (PyFlt x) = map_sum id PyFlt (real_pow A x 2)"

definition asteroid_kinetic_energy :: "arith \<Rightarrow> number \<Rightarrow> number \<Rightarrow> number \<Rightarrow> py_error + pyfloat" where
  "asteroid_kinetic_energy A diameter_m velocity_km_s density =
     bind_err (halve A diameter_m) (\<lambda>radius.
     bind_err (real_pow A radius 3) (\<lambda>cube.
     let volume = fl_mul A (fl_mul A (Fin four_thirds_d) (Fin pi_d)) cube in
     bind_err (to_float A density) (\<lambda>density_f.
     let mass = fl_mul A density_f volume;
         velocity = times_1000 A velocity_km_s in
     bind_err (number_square A velocity) (\<lambda>velocity_sq.
     bind_err (to_float A velocity_sq) (\<lambda>velocity_sq_f.
     let energy_joules = fl_mul A (fl_mul A (Fin 0.5) mass) velocity_sq_f
     in Inr (fl_div_pos A energy_joules 4184000000000000))))))"

fun times_float :: "arith \<Rightarrow> pyfloat \<Rightarrow> pynum \<Rightarrow> pynum" where
  "times_float A c (PyFloat x) = PyFloat (fl_mul A c x)"
| "times_float A c (PyComplex z) = PyComplex (cx_times A c z)"

definition impact_radius_km :: "arith \<Rightarrow> pyfloat \<Rightarrow> py_error + pynum" where
  "impact_radius_km A megatons =
     bind_err (float_pow A megatons third_d) (\<lambda>p. Inr (times_float A (Fin 1.5) p))"

text \<open>\<^verbatim>\<open>population_affected\<close>: the argument of \<^verbatim>\<open>int()\<close>, then \<^verbatim>\<open>int()\<close>. The density is an
  int or a float, the radius a float or a complex number.\<close>

fun pynum_square :: "arith \<Rightarrow> pynum \<Rightarrow> py_error + pynum" where
  "pynum_square A (PyFloat x) = map_sum id PyFloat (real_pow A x 2)"
| "pynum_square A (PyComplex z) =
     (case cx_square A z of None \<Rightarrow> Inl OverflowError | Some w \<Rightarrow> Inr (PyComplex w))"

definition area_times_density :: "arith \<Rightarrow> number \<Rightarrow> pynum \<Rightarrow> py_error + pynum" where
  "area_times_density A pop_density_per_km2 radius_km =
     bind_err (pynum_square A radius_km) (\<lambda>sq.
     let area_km2 = times_float A (Fin pi_d) sq in
     bind_err (to_float A pop_density_per_km2) (\<lambda>density_f.
     Inr (times_float A density_f area_km2)))"

definition population_affected :: "arith \<Rightarrow> number \<Rightarrow> pynum \<Rightarrow> py_error + int" where
  "population_affected A pop_density_per_km2 radius_km =
     bind_err (area_times_density A pop_density_per_km2 radius_km) py_int"

text \<open>The local variable \<^verbatim>\<open>magnitude\<close> of \<^verbatim>\<open>impact_earthquake_magnitude\<close>, then
  \<^verbatim>\<open>max(0, magnitude)\<close>, which keeps the int 0 unless \<^verbatim>\<open>magnitude > 0\<close> is true, then
  \<^verbatim>\<open>round(_, 1)\<close>.\<close>

definition magnitude_raw :: "arith \<Rightarrow> pyfloat \<Rightarrow> pyfloat" where
  "magnitude_raw A megatons =
     (let E_joules = fl_mul A megatons (Fin 4184000000000000)
      in fl_sub_fin A (fl_mul A (Fin c067_d) (np_log10 A E_joules)) c107_d)"

definition max_zero :: "pyfloat \<Rightarrow> number" where
  "max_zero v = (if fl_gt0 v then PyFlt v else PyInt 0)"

fun round_magnitude :: "arith \<Rightarrow> number \<Rightarrow> nat \<Rightarrow> number" where
  "round_magnitude A (PyInt k) n = PyInt k"
| "round_magnitude A (PyFlt v) n = PyFlt (np_round A v n)"

definition impact_earthquake_magnitude :: "arith \<Rightarrow> pyfloat \<Rightarrow> number" where
  "impact_earthquake_magnitude A megatons =
     round_magnitude A (max_zero (magnitude_raw A megatons)) 1"

section \<open>Impact records and the impact file\<close>

text \<open>
  The dictionary \<^verbatim>\<open>result\<close> built by \<^verbatim>\<open>simulate_impact\<close>, one field per key (the prefix
  \<open>ev_\<close> keeps the field names apart from the functions above). \<^verbatim>\<open>latitude\<close>,
  \<^verbatim>\<open>longitude\<close>, \<^verbatim>\<open>diameter_m\<close> and \<^verbatim>\<open>velocity_km_s\<close> hold the request's values as
  they came. The label \<^verbatim>\<open>Simulated Impact (a, b)\<close> is kept as the pair of rounded
  coordinates it prints.
\<close>

record impact =
  ev_id :: string
  ev_name :: "number \<times> number"
  ev_latitude :: jval
  ev_longitude :: jval
  ev_diameter_m :: jval
  ev_velocity_km_s :: jval
  ev_energy_megatons :: pyfloat
  ev_impact_radius_km :: pyfloat
  ev_population_affected :: int
  ev_earthquake_magnitude :: number

text \<open>
  The file \<^verbatim>\<open>impacts.json\<close>: absent, present with text that is not JSON, or present with
  a JSON array of impact records (what \<^verbatim>\<open>save_impact\<close> and \<^verbatim>\<open>delete_impact\<close> write).
\<close>

datatype file_state = Missing | Unparseable | Stored "impact list"

fun load_impacts :: "file_state \<Rightarrow> impact list" where
  "load_impacts Missing = []"
| "load_impacts Unparseable = []"
| "load_impacts (Stored impacts) = impacts"

definition save_impact :: "impact \<Rightarrow> file_state \<Rightarrow> file_state" where
  "save_impact imp fs = (let impacts = load_impacts fs in Stored (impacts @ [imp]))"

text \<open>A response of the HTTP layer: the JSON body and the status code.\<close>

datatype body = Error string | Message string

type_synonym response = "body \<times> nat"

definition delete_impact :: "string \<Rightarrow> file_state \<Rightarrow> response \<times> file_state" where
  "delete_impact impact_id fs =
     (let impacts = load_impacts fs;
          new_impacts = filter (\<lambda>i. ev_id i \<noteq> impact_id) impacts
      in if length new_impacts = length impacts
         then ((Error ''Impact not found'', 404), fs)
         else ((Message (''Impact '' @ impact_id @ '' deleted''), 200), Stored new_impacts))"

section \<open>Simulating an impact\<close>

text \<open>The decimal digits of a natural number, as \<^verbatim>\<open>str\<close> prints them.\<close>

fun str_nat :: "nat \<Rightarrow> string" where
  "str_nat n =
     (if n < 10 then [char_of (48 + n)]
      else str_nat (n div 10) @ [char_of (48 + n mod 10)])"

declare str_nat.simps [simp del]

text \<open>
  The JSON object of a request: each key is absent (\<open>None\<close>) or carries a value.
  \<^verbatim>\<open>data.get(key, default)\<close> gives the default only for an absent key;
  \<^verbatim>\<open>data.get(key)\<close> gives \<^verbatim>\<open>None\<close> for it, as for an explicit \<^verbatim>\<open>null\<close>.
\<close>

record request =
  req_diameter_m :: "jval option"
  req_velocity_km_s :: "jval option"
  req_latitude :: "jval option"
  req_longitude :: "jval option"
  req_pop_density_per_km2 :: "jval option"

fun dict_get :: "jval option \<Rightarrow> jval \<Rightarrow> jval" where
  "dict_get None dflt = dflt"
| "dict_get (Some v) dflt = v"

text \<open>
  The two hazard functions that receive request values directly. A diameter that is not
  a number raises \<^verbatim>\<open>TypeError\<close> at \<^verbatim>\<open>diameter_m / 2\<close>. A velocity that is not a number
  raises it at \<^verbatim>\<open>velocity_km_s * 1000\<close> or at \<^verbatim>\<open>velocity ** 2\<close>, after the radius and its
  cube. A density that is not a number raises it at \<^verbatim>\<open>area_km2 * pop_density_per_km2\<close>,
  after the square of the radius.
\<close>

definition kinetic_energy_of :: "arith \<Rightarrow> jval \<Rightarrow> jval \<Rightarrow> py_error + pyfloat" where
  "kinetic_energy_of A diameter velocity =
     (case as_number diameter of
        None \<Rightarrow> Inl Unsupported_operand
      | Some d \<Rightarrow>
          (case as_number velocity of
             None \<Rightarrow>
               bind_err (halve A d) (\<lambda>radius.
               bind_err (real_pow A radius 3) (\<lambda>cube. Inl Unsupported_operand))
           | Some v \<Rightarrow> asteroid_kinetic_energy A d v (PyInt 3000)))"

definition population_of :: "arith \<Rightarrow> jval \<Rightarrow> pynum \<Rightarrow> py_error + int" where
  "population_of A pop_density radius_km =
     (case as_number pop_density of
        None \<Rightarrow> bind_err (pynum_square A radius_km) (\<lambda>sq. Inl Unsupported_operand)
      | Some p \<Rightarrow> population_affected A p radius_km)"

text \<open>
  \<^verbatim>\<open>simulate_impact\<close>. The second argument is the number drawn by
  \<^verbatim>\<open>np.random.randint(10000, 99999)\<close>. The result is the record returned, or the
  exception raised, and the impact file afterwards. The steps are in the source's order:
  the four hazard calculations, then the entries of \<^verbatim>\<open>result\<close> from top to bottom, then
  \<^verbatim>\<open>save_impact\<close>.
\<close>

definition simulate_impact ::
    "arith \<Rightarrow> nat \<Rightarrow> request \<Rightarrow> file_state \<Rightarrow> (py_error + impact) \<times> file_state" where
  "simulate_impact A rnd_id data fs =
     (let diameter = dict_get (req_diameter_m data) (JNum (PyInt 50));
          velocity = dict_get (req_velocity_km_s data) (JNum (PyInt 20));
          lat = dict_get (req_latitude data) JNull;
          lon = dict_get (req_longitude data) JNull;
          pop_density = dict_get (req_pop_density_per_km2 data) (JNum (PyInt 1000));
          outcome =
            bind_err (kinetic_energy_of A diameter velocity) (\<lambda>energy_mt.
            bind_err (impact_radius_km A energy_mt) (\<lambda>radius_km.
            bind_err (population_of A pop_density radius_km) (\<lambda>population.
            let earthquake_mag = impact_earthquake_magnitude A energy_mt in
            bind_err (jval_round A lat 2) (\<lambda>lat2.
            bind_err (jval_round A lon 2) (\<lambda>lon2.
            let energy2 = py_round A energy_mt 2 in
            bind_err (pynum_round A radius_km 2) (\<lambda>radius2.
            Inr \<lparr> ev_id = ''sim_'' @ str_nat rnd_id,
                  ev_name = (lat2, lon2),
                  ev_latitude = lat,
                  ev_longitude = lon,
                  ev_diameter_m = diameter,
                  ev_velocity_km_s = velocity,
                  ev_energy_megatons = energy2,
                  ev_impact_radius_km = radius2,
                  ev_population_affected = population,
                  ev_earthquake_magnitude = earthquake_mag \<rparr>))))))
      in case outcome of
           Inl e \<Rightarrow> (Inl e, fs)
         | Inr result \<Rightarrow> (Inr result, save_impact result fs))"

section \<open>Properties of an arithmetic\<close>

text \<open>Order on floats; nan is below and above nothing.\<close>

fun fl_ge0 :: "pyfloat \<Rightarrow> bool" where
  "fl_ge0 (Fin r) = (0 \<le> r)"
| "fl_ge0 PosInf = True"
| "fl_ge0 NegInf = False"
| "fl_ge0 NaN = False"

fun fl_le0 :: "pyfloat \<Rightarrow> bool" where
  "fl_le0 (Fin r) = (r \<le> 0)"
| "fl_le0 NegInf = True"
| "fl_le0 PosInf = False"
| "fl_le0 NaN = False"

fun fl_le :: "pyfloat \<Rightarrow> pyfloat \<Rightarrow> bool" where
  "fl_le (Fin a) (Fin b) = (a \<le> b)"
| "fl_le NaN y = False"
| "fl_le x NaN = False"
| "fl_le NegInf y = True"
| "fl_le x PosInf = True"
| "fl_le x y = False"

text \<open>A returned magnitude is not negative and not nan.\<close>

fun number_ge0 :: "number \<Rightarrow> bool" where
  "number_ge0 (PyInt k) = (0 \<le> k)"
| "number_ge0 (PyFlt v) = fl_ge0 v"

text \<open>
  Two properties that the arithmetic of the machine has and that some statements below
  need. Rounding keeps the sign: the double of a negative real is not positive, and
  numpy's rounding of a positive double is not negative. The cube root is monotone: zero
  rounds to zero, rounding is monotone, and \<^verbatim>\<open>pow(x, 1 / 3)\<close> is finite, not negative,
  monotone in \<open>x\<close> and 1 at 1.
\<close>

definition keeps_sign :: "arith \<Rightarrow> bool" where
  "keeps_sign A =
     ((\<forall>x. x < 0 \<longrightarrow> fl_le0 (rnd A x)) \<and> (\<forall>x n. 0 < x \<longrightarrow> fl_ge0 (np_round_fin A x n)))"

definition monotone_cube_root :: "arith \<Rightarrow> bool" where
  "monotone_cube_root A =
     (rnd A 0 = Fin 0
      \<and> (\<forall>x y. x \<le> y \<longrightarrow> fl_le (rnd A x) (rnd A y))
      \<and> c_pow A 1 third_d = Fin 1
      \<and> (\<forall>x y. 0 < x \<and> x \<le> y \<longrightarrow>
            (\<exists>p q. c_pow A x third_d = Fin p \<and> c_pow A y third_d = Fin q \<and> 0 \<le> p \<and> p \<le> q)))"

section \<open>Concrete inputs\<close>

text \<open>
  The arithmetic without rounding and without bounds: every operation returns its exact
  result. It serves to evaluate the functions at concrete inputs.
\<close>

definition ideal :: arith where
  "ideal =
     \<lparr> rnd = Fin,
       c_pow = (\<lambda>x y. Fin (x powr y)),
       c_log10 = (\<lambda>x. Fin (log 10 x)),
       np_round_fin = (\<lambda>x n. Fin (decimal_round x n)),
       cx_pow = (\<lambda>x y. (Fin ((- x) powr y * cos (pi * y)), Fin ((- x) powr y * sin (pi * y)))),
       cx_times = (\<lambda>c z. (fl_mul_r Fin c (fst z), fl_mul_r Fin c (snd z))),
       cx_square = (\<lambda>z. case z of
                          (Fin a, Fin b) \<Rightarrow> Some (Fin (a\<^sup>2 - b\<^sup>2), Fin (2 * a * b))
                        | _ \<Rightarrow> Some (NaN, NaN)) \<rparr>"

text \<open>Two stored records that carry the same identifier.\<close>

definition example_impact :: impact where
  "example_impact =
     \<lparr> ev_id = ''sim_12345'', ev_name = (PyInt 0, PyInt 0),
       ev_latitude = JNum (PyInt 0), ev_longitude = JNum (PyInt 0),
       ev_diameter_m = JNum (PyInt 50), ev_velocity_km_s = JNum (PyInt 20),
       ev_energy_megatons = Fin 9.39, ev_impact_radius_km = Fin 3.16,
       ev_population_affected = 31451, ev_earthquake_magnitude = PyFlt (Fin 0.4) \<rparr>"

definition example_twin :: impact where
  "example_twin = example_impact \<lparr> ev_latitude := JNum (PyInt 1) \<rparr>"

text \<open>
  Three request bodies: latitude and longitude 0 with every other key absent (so the
  defaults 50, 20 and 1000 apply), the empty object, and an object whose only key is a
  negative diameter.
\<close>

definition default_request :: request where
  "default_request =
     \<lparr> req_diameter_m = None, req_velocity_km_s = None, req_latitude = Some (JNum (PyInt 0)),
       req_longitude = Some (JNum (PyInt 0)), req_pop_density_per_km2 = None \<rparr>"

definition empty_request :: request where
  "empty_request =
     \<lparr> req_diameter_m = None, req_velocity_km_s = None, req_latitude = None,
       req_longitude = None, req_pop_density_per_km2 = None \<rparr>"

definition negative_diameter_request :: request where
  "negative_diameter_request = empty_request \<lparr> req_diameter_m := Some (JNum (PyInt (- 1))) \<rparr>"

section \<open>The impact store\<close>

lemma filter_same_length:
  "length (filter P xs) = length xs \<Longrightarrow> filter P xs = xs"
proof -
  assume eq: "length (filter P xs) = length xs"
  have "P x" if "x \<in> set xs" for x
  proof (rule ccontr)
    assume "\<not> P x"
    with that have "length (filter P xs) < length xs" by (rule length_filter_less)
    with eq show False by simp
  qed
  then show ?thesis by (simp add: filter_id_conv)
qed

lemma load_after_delete:
  "load_impacts (snd (delete_impact iid fs)) = filter (\<lambda>i. ev_id i \<noteq> iid) (load_impacts fs)"
  by (simp add: delete_impact_def Let_def filter_same_length)

lemma load_after_save: "load_impacts (save_impact e fs) = load_impacts fs @ [e]"
  by (simp add: save_impact_def)

lemma delete_absent:
  assumes "\<forall>i \<in> set (load_impacts fs). ev_id i \<noteq> iid"
  shows "delete_impact iid fs = ((Error ''Impact not found'', 404), fs)"
proof -
  have "filter (\<lambda>i. ev_id i \<noteq> iid) (load_impacts fs) = load_impacts fs"
    using assms by (simp add: filter_id_conv)
  then show ?thesis by (simp add: delete_impact_def Let_def)
qed

lemma matches_at_most_one:
  "distinct (map f xs) \<Longrightarrow> length (filter (\<lambda>i. f i = a) xs) \<le> 1"
proof (induction xs)
  case Nil
  then show ?case by simp
next
  case (Cons x xs)
  show ?case
  proof (cases "f x = a")
    case True
    with Cons.prems have "a \<notin> f ` set xs" by simp
    then have "\<forall>i \<in> set xs. f i \<noteq> a" by blast
    then have "filter (\<lambda>i. f i = a) xs = []" by (simp add: filter_empty_conv)
    with True show ?thesis by simp
  next
    case False
    with Cons show ?thesis by simp
  qed
qed

lemma example_ids: "ev_id example_impact = ''sim_12345''" "ev_id example_twin = ''sim_12345''"
  by (simp_all add: example_impact_def example_twin_def)

text \<open>
  C6 as stated fails: with two different stored records that share the
  identifier \<open>sim_12345\<close>, one call of \<open>delete_impact\<close> leaves a store two records
  shorter.
\<close>

theorem C6_delete_removes_all_counterexample:
  "length (load_impacts (Stored [example_impact, example_twin])) = 2
   \<and> length (load_impacts (snd (delete_impact ''sim_12345'' (Stored [example_impact, example_twin])))) = 0
   \<and> example_impact \<noteq> example_twin"
proof -
  have "example_impact \<noteq> example_twin"
  proof
    assume "example_impact = example_twin"
    then have "ev_latitude example_impact = ev_latitude example_twin" by simp
    then show False by (simp add: example_impact_def example_twin_def)
  qed
  then show ?thesis by (simp add: load_after_delete example_ids)
qed

text \<open>
  C6, amended. After \<open>delete_impact\<close> the store holds the previous records whose
  identifier differs from the given one, in their order: the call removes every record with
  that identifier, so the store is shorter by the number of such records, and by at most one
  when the stored identifiers are pairwise distinct.
\<close>

theorem C6_delete_removes_matches:
  "load_impacts (snd (delete_impact iid fs)) = filter (\<lambda>i. ev_id i \<noteq> iid) (load_impacts fs)
   \<and> length (load_impacts (snd (delete_impact iid fs)))
       + length (filter (\<lambda>i. ev_id i = iid) (load_impacts fs)) = length (load_impacts fs)
   \<and> (distinct (map ev_id (load_impacts fs)) \<longrightarrow>
        length (load_impacts fs) \<le> length (load_impacts (snd (delete_impact iid fs))) + 1)"
proof -
  let ?xs = "load_impacts fs"
  have split: "length (filter (\<lambda>i. ev_id i \<noteq> iid) ?xs) + length (filter (\<lambda>i. ev_id i = iid) ?xs) = length ?xs"
    using sum_length_filter_compl[of "\<lambda>i. ev_id i = iid" ?xs] by simp
  have one: "length ?xs \<le> length (filter (\<lambda>i. ev_id i \<noteq> iid) ?xs) + 1"
    if "distinct (map ev_id ?xs)"
    using matches_at_most_one[OF that, of iid] split by linarith
  show ?thesis
    unfolding load_after_delete using split one by blast
qed

text \<open>
  The statement of C6 on a store of one record.
\<close>

theorem C6_delete_removes_matches_witness:
  "distinct (map ev_id (load_impacts (Stored [example_impact])))
   \<and> length (load_impacts (Stored [example_impact]))
       \<le> length (load_impacts (snd (delete_impact ''sim_12345'' (Stored [example_impact])))) + 1
   \<and> load_impacts (snd (delete_impact ''sim_12345'' (Stored [example_impact]))) = []"
proof -
  have d: "distinct (map ev_id (load_impacts (Stored [example_impact])))" by simp
  have e: "load_impacts (snd (delete_impact ''sim_12345'' (Stored [example_impact]))) = []"
    using C6_delete_removes_matches[of "''sim_12345''" "Stored [example_impact]"]
    by (simp add: example_ids)
  show ?thesis
    using d e C6_delete_removes_matches[of "''sim_12345''" "Stored [example_impact]"] by blast
qed

text \<open>
  C7. When no stored record has the given identifier, \<open>delete_impact\<close> answers
  404 with the error body and returns the file as it was: the file is not rewritten (a
  missing or unparseable file stays so) and loading it gives the same list.
\<close>

theorem C7_delete_absent_unchanged:
  "\<forall>i \<in> set (load_impacts fs). ev_id i \<noteq> iid \<Longrightarrow>
     delete_impact iid fs = ((Error ''Impact not found'', 404), fs)
     \<and> load_impacts (snd (delete_impact iid fs)) = load_impacts fs"
  using delete_absent[of fs iid] by simp

text \<open>
  The statement of C7 on a store of one record and on a missing file.
\<close>

theorem C7_delete_absent_unchanged_witness:
  "ev_id example_impact \<noteq> ''sim_99999''
   \<and> delete_impact ''sim_99999'' (Stored [example_impact])
       = ((Error ''Impact not found'', 404), Stored [example_impact])
   \<and> delete_impact ''sim_99999'' Missing = ((Error ''Impact not found'', 404), Missing)"
proof -
  have h: "\<forall>i \<in> set (load_impacts (Stored [example_impact])). ev_id i \<noteq> ''sim_99999''"
    by (simp add: example_ids)
  have h': "\<forall>i \<in> set (load_impacts Missing). ev_id i \<noteq> ''sim_99999''"
    by simp
  have n: "ev_id example_impact \<noteq> ''sim_99999''"
    by (simp add: example_ids)
  show ?thesis
    using n C7_delete_absent_unchanged[OF h] C7_delete_absent_unchanged[OF h'] by blast
qed

text \<open>
  C8 as stated fails: appending a record to a store that already holds an
  equal record gives a list that contains it twice.
\<close>

theorem C8_append_twice_counterexample:
  "count_list (load_impacts (save_impact example_impact (Stored [example_impact]))) example_impact = 2"
  by (simp add: load_after_save)

text \<open>
  C8, amended. After \<open>save_impact e\<close> the store is the previous contents followed
  by \<open>e\<close>, so \<open>e\<close> occurs once more than before, and exactly once when the previous
  contents did not hold an equal record. After \<open>delete_impact\<close> with the identifier of
  \<open>e\<close>, on that store or on any other, the store does not contain \<open>e\<close>.
\<close>

theorem C8_append_then_delete:
  "load_impacts (save_impact e fs) = load_impacts fs @ [e]
   \<and> count_list (load_impacts (save_impact e fs)) e = count_list (load_impacts fs) e + 1
   \<and> (e \<notin> set (load_impacts fs) \<longrightarrow> count_list (load_impacts (save_impact e fs)) e = 1)
   \<and> e \<notin> set (load_impacts (snd (delete_impact (ev_id e) (save_impact e fs))))
   \<and> e \<notin> set (load_impacts (snd (delete_impact (ev_id e) fs')))"
proof -
  have c: "count_list (load_impacts (save_impact e fs)) e = count_list (load_impacts fs) e + 1"
    by (simp add: load_after_save)
  have d: "e \<notin> set (load_impacts (snd (delete_impact (ev_id e) g)))" for g
    by (simp add: load_after_delete)
  have o: "count_list (load_impacts (save_impact e fs)) e = 1" if "e \<notin> set (load_impacts fs)"
    using that c by (simp add: count_list_0_iff)
  show ?thesis using load_after_save c d o by blast
qed

text \<open>
  The statement of C8 on a missing file.
\<close>

theorem C8_append_then_delete_witness:
  "example_impact \<notin> set (load_impacts Missing)
   \<and> count_list (load_impacts (save_impact example_impact Missing)) example_impact = 1
   \<and> load_impacts (save_impact example_impact Missing) = [example_impact]
   \<and> load_impacts (snd (delete_impact ''sim_12345'' (save_impact example_impact Missing))) = []"
proof -
  have h: "example_impact \<notin> set (load_impacts Missing)" by simp
  have a: "load_impacts (save_impact example_impact Missing) = [example_impact]"
    using C8_append_then_delete[of example_impact Missing] by simp
  have b: "load_impacts (snd (delete_impact ''sim_12345'' (save_impact example_impact Missing))) = []"
    by (simp add: load_after_delete a example_ids)
  show ?thesis
    using h a b C8_append_then_delete[of example_impact Missing] by blast
qed

section \<open>Requests without coordinates\<close>

lemma bind_err_Inl [simp]: "bind_err (Inl e) f = Inl e"
  by (simp add: bind_err_def)

lemma bind_err_Inr [simp]: "bind_err (Inr x) f = f x"
  by (simp add: bind_err_def)

lemma simulate_energy_error:
  "kinetic_energy_of A (dict_get (req_diameter_m data) (JNum (PyInt 50)))
      (dict_get (req_velocity_km_s data) (JNum (PyInt 20))) = Inl err \<Longrightarrow>
   simulate_impact A rnd_id data fs = (Inl err, fs)"
  by (simp add: simulate_impact_def Let_def)

lemma simulate_radius_error:
  "kinetic_energy_of A (dict_get (req_diameter_m data) (JNum (PyInt 50)))
      (dict_get (req_velocity_km_s data) (JNum (PyInt 20))) = Inr energy \<Longrightarrow>
   impact_radius_km A energy = Inl err \<Longrightarrow>
   simulate_impact A rnd_id data fs = (Inl err, fs)"
  by (simp add: simulate_impact_def Let_def)

lemma simulate_population_error:
  "kinetic_energy_of A (dict_get (req_diameter_m data) (JNum (PyInt 50)))
      (dict_get (req_velocity_km_s data) (JNum (PyInt 20))) = Inr energy \<Longrightarrow>
   impact_radius_km A energy = Inr radius \<Longrightarrow>
   population_of A (dict_get (req_pop_density_per_km2 data) (JNum (PyInt 1000))) radius = Inl err \<Longrightarrow>
   simulate_impact A rnd_id data fs = (Inl err, fs)"
  by (simp add: simulate_impact_def Let_def)

lemma simulate_coordinate_error:
  "kinetic_energy_of A (dict_get (req_diameter_m data) (JNum (PyInt 50)))
      (dict_get (req_velocity_km_s data) (JNum (PyInt 20))) = Inr energy \<Longrightarrow>
   impact_radius_km A energy = Inr radius \<Longrightarrow>
   population_of A (dict_get (req_pop_density_per_km2 data) (JNum (PyInt 1000))) radius = Inr p \<Longrightarrow>
   as_number (dict_get (req_latitude data) JNull) = None
     \<or> as_number (dict_get (req_longitude data) JNull) = None \<Longrightarrow>
   simulate_impact A rnd_id data fs = (Inl Round_undefined, fs)"
  by (auto simp: simulate_impact_def Let_def jval_round_def split: option.splits)

lemma simulate_null_coordinate:
  assumes "as_number (dict_get (req_latitude data) JNull) = None
           \<or> as_number (dict_get (req_longitude data) JNull) = None"
  shows "\<exists>err. simulate_impact A rnd_id data fs = (Inl err, fs)"
proof -
  let ?k = "kinetic_energy_of A (dict_get (req_diameter_m data) (JNum (PyInt 50)))
      (dict_get (req_velocity_km_s data) (JNum (PyInt 20)))"
  show ?thesis
  proof (cases ?k)
    case (Inl err)
    then show ?thesis using simulate_energy_error by blast
  next
    case k: (Inr energy)
    show ?thesis
    proof (cases "impact_radius_km A energy")
      case (Inl err)
      with k show ?thesis using simulate_radius_error by blast
    next
      case r: (Inr radius)
      show ?thesis
      proof (cases "population_of A (dict_get (req_pop_density_per_km2 data) (JNum (PyInt 1000))) radius")
        case (Inl err)
        with k r show ?thesis using simulate_population_error by blast
      next
        case (Inr p)
        with k r assms show ?thesis using simulate_coordinate_error by blast
      qed
    qed
  qed
qed

text \<open>
  C10, amended. For every request whose latitude or longitude is absent or null, and
  every arithmetic, \<open>simulate_impact\<close> raises an error before \<open>save_impact\<close> is called, and
  the impact file is what it was. Whenever the hazard calculations before it succeed, the
  error is the one raised by \<open>round\<close> on the null coordinate while the name is formatted.
\<close>

theorem C10_null_coordinate_fails:
  assumes "req_latitude data = None \<or> req_latitude data = Some JNull
           \<or> req_longitude data = None \<or> req_longitude data = Some JNull"
  shows "snd (simulate_impact A rnd_id data fs) = fs
     \<and> (\<exists>err. fst (simulate_impact A rnd_id data fs) = Inl err)
     \<and> (\<forall>energy radius p.
          kinetic_energy_of A (dict_get (req_diameter_m data) (JNum (PyInt 50)))
            (dict_get (req_velocity_km_s data) (JNum (PyInt 20))) = Inr energy
          \<and> impact_radius_km A energy = Inr radius
          \<and> population_of A (dict_get (req_pop_density_per_km2 data) (JNum (PyInt 1000)))
               radius = Inr p
          \<longrightarrow> fst (simulate_impact A rnd_id data fs) = Inl Round_undefined)"
proof -
  have n: "as_number (dict_get (req_latitude data) JNull) = None
           \<or> as_number (dict_get (req_longitude data) JNull) = None"
    using assms by auto
  obtain err where "simulate_impact A rnd_id data fs = (Inl err, fs)"
    using simulate_null_coordinate[OF n] by blast
  then have a: "snd (simulate_impact A rnd_id data fs) = fs"
    and b: "\<exists>err. fst (simulate_impact A rnd_id data fs) = Inl err" by simp_all
  have c: "fst (simulate_impact A rnd_id data fs) = Inl Round_undefined"
    if "kinetic_energy_of A (dict_get (req_diameter_m data) (JNum (PyInt 50)))
            (dict_get (req_velocity_km_s data) (JNum (PyInt 20))) = Inr energy"
      "impact_radius_km A energy = Inr radius"
      "population_of A (dict_get (req_pop_density_per_km2 data) (JNum (PyInt 1000))) radius = Inr p"
    for energy radius p
    using simulate_coordinate_error[OF that n] by simp
  show ?thesis using a b c by blast
qed

section \<open>The arithmetic without rounding\<close>

lemma ideal_rnd [simp]: "rnd ideal = Fin"
  and ideal_c_pow [simp]: "c_pow ideal x y = Fin (x powr y)"
  and ideal_c_log10 [simp]: "c_log10 ideal x = Fin (log 10 x)"
  and ideal_np_round_fin [simp]: "np_round_fin ideal x n = Fin (decimal_round x n)"
  and ideal_cx_square [simp]: "\<exists>w. cx_square ideal z = Some w"
  by (auto simp: ideal_def split: prod.splits pyfloat.splits)

lemma fl_mul_ideal [simp]: "fl_mul ideal (Fin a) (Fin b) = Fin (a * b)"
  by (simp add: fl_mul_def fl_mul_r_def)

lemma fl_div_ideal [simp]: "fl_div_pos ideal (Fin a) c = Fin (a / c)"
  by simp

lemma int_to_float_ideal [simp]: "int_to_float ideal n = Inr (Fin (of_int n))"
  by (simp add: int_to_float_def)

lemma halve_ideal_int [simp]: "halve ideal (PyInt n) = Inr (Fin (of_int n / 2))"
  by simp

lemma is_int_numeral [simp]: "is_int (numeral k)"
  by (simp add: is_int_def)

lemma third_not_int [simp]: "\<not> is_int third_d"
proof -
  have "\<lfloor>third_d\<rfloor> = 0" by (simp add: third_d_def floor_eq_iff)
  then show ?thesis by (simp add: is_int_def third_d_def)
qed

lemma real_pow_ideal_square [simp]: "real_pow ideal (Fin r) 2 = Inr (Fin (r\<^sup>2))"
proof -
  have "\<bar>r\<bar> = 1 \<Longrightarrow> r\<^sup>2 = 1"
    by (metis abs_1 power2_abs one_power2)
  moreover have "r \<noteq> 0 \<Longrightarrow> \<bar>r\<bar> powr 2 = r\<^sup>2"
    by (simp add: powr_numeral)
  ultimately show ?thesis by (auto simp: odd_int_def)
qed

lemma real_pow_ideal_cube [simp]: "real_pow ideal (Fin r) 3 = Inr (Fin (r ^ 3))"
proof -
  have o: "odd_int 3" by (simp add: odd_int_def)
  have c: "r \<noteq> 0 \<Longrightarrow> \<bar>r\<bar> powr 3 = \<bar>r\<bar> ^ 3"
    by (simp add: powr_numeral)
  have n: "r < 0 \<Longrightarrow> - (\<bar>r\<bar> ^ 3) = r ^ 3" by simp
  have p: "0 < r \<Longrightarrow> \<bar>r\<bar> ^ 3 = r ^ 3" by simp
  have one: "\<bar>r\<bar> = 1 \<Longrightarrow> r < 0 \<Longrightarrow> r ^ 3 = - 1" by simp
  have one': "\<bar>r\<bar> = 1 \<Longrightarrow> \<not> r < 0 \<Longrightarrow> r ^ 3 = 1" by simp
  show ?thesis
    using o c n p one one' by (cases "r = 0"; cases "r < 0"; cases "\<bar>r\<bar> = 1") (simp_all del: abs_if)
qed

text \<open>The energy of an int diameter and an int velocity at density 3000, in the ideal
  arithmetic.\<close>

lemma energy_ideal_int:
  "asteroid_kinetic_energy ideal (PyInt d) (PyInt v) (PyInt 3000) =
     Inr (Fin (1 / 2 * (3000 * (four_thirds_d * pi_d * (of_int d / 2) ^ 3))
               * (of_int v * 1000)\<^sup>2 / 4184000000000000))"
  by (simp add: asteroid_kinetic_energy_def Let_def del: real_pow.simps)

lemma radius_of_negative:
  "e < 0 \<Longrightarrow> impact_radius_km A (Fin e) =
     Inr (PyComplex (cx_times A (Fin 1.5) (cx_pow A e third_d)))"
  by (simp add: impact_radius_km_def float_pow_def)

lemma population_of_complex_ideal:
  "population_of ideal (JNum (PyInt n)) (PyComplex z) = Inl Int_of_complex"
proof -
  obtain w where "cx_square ideal z = Some w" using ideal_cx_square by blast
  then show ?thesis
    by (simp add: population_of_def population_affected_def area_times_density_def Let_def)
qed

lemma negative_diameter_energy:
  "\<exists>e < 0. asteroid_kinetic_energy ideal (PyInt (- 1)) (PyInt 20) (PyInt 3000) = Inr (Fin e)"
  unfolding energy_ideal_int by (simp add: four_thirds_d_def pi_d_def)

text \<open>
  C10 as stated fails: a request that omits the latitude and carries a negative
  diameter does not fail while the name is formatted. The energy is negative, the radius is
  a complex number, and \<open>population_affected\<close> raises at \<open>int()\<close>, before the
  \<open>result\<close> dictionary is built.
\<close>

theorem C10_earlier_failure_counterexample:
  "req_latitude negative_diameter_request = None
   \<and> simulate_impact ideal 12345 negative_diameter_request Missing = (Inl Int_of_complex, Missing)"
proof -
  obtain e where e: "e < 0"
    "asteroid_kinetic_energy ideal (PyInt (- 1)) (PyInt 20) (PyInt 3000) = Inr (Fin e)"
    using negative_diameter_energy by blast
  have k: "kinetic_energy_of ideal (dict_get (req_diameter_m negative_diameter_request) (JNum (PyInt 50)))
      (dict_get (req_velocity_km_s negative_diameter_request) (JNum (PyInt 20))) = Inr (Fin e)"
    using e(2) by (simp add: negative_diameter_request_def empty_request_def kinetic_energy_of_def)
  have p: "population_of ideal
      (dict_get (req_pop_density_per_km2 negative_diameter_request) (JNum (PyInt 1000)))
      (PyComplex (cx_times ideal (Fin 1.5) (cx_pow ideal e third_d))) = Inl Int_of_complex"
    by (simp add: negative_diameter_request_def empty_request_def population_of_complex_ideal)
  have "req_latitude negative_diameter_request = None"
    by (simp add: negative_diameter_request_def empty_request_def)
  then show ?thesis
    using simulate_population_error[OF k radius_of_negative[OF e(1)] p] by simp
qed

section \<open>Impact radius\<close>

lemma third_bounds: "0 < third_d" "third_d < 1"
  by (simp_all add: third_d_def)

lemma not_odd_third [simp]: "\<not> odd_int third_d"
  by (simp add: odd_int_def)

lemma radius_of_zero: "impact_radius_km A (Fin 0) = Inr (PyFloat (Fin 0))"
  by (simp add: impact_radius_km_def float_pow_def fl_mul_def fl_mul_r_def)

lemma radius_of_positive:
  "0 < m \<Longrightarrow> impact_radius_km A (Fin m) =
     (if m = 1 then Inr (PyFloat (fl_mul A (Fin 1.5) (Fin 1)))
      else case c_pow A m third_d of
             Fin q \<Rightarrow> Inr (PyFloat (fl_mul A (Fin 1.5) (Fin q)))
           | _ \<Rightarrow> Inl OverflowError)"
  by (simp add: impact_radius_km_def float_pow_def split: pyfloat.splits)

lemma radius_ideal:
  "0 \<le> m \<Longrightarrow> impact_radius_km ideal (Fin m) = Inr (PyFloat (Fin (1.5 * m powr third_d)))"
proof (cases "m = 0")
  case True
  then show ?thesis by (simp add: radius_of_zero)
next
  case False
  assume "0 \<le> m"
  with False have "0 < m" by simp
  then show ?thesis by (simp add: radius_of_positive)
qed

lemma radius_monotone:
  assumes mono: "monotone_cube_root A" and ab: "0 \<le> a" "a \<le> b"
  shows "\<exists>x y. impact_radius_km A (Fin a) = Inr (PyFloat x)
           \<and> impact_radius_km A (Fin b) = Inr (PyFloat y) \<and> fl_le x y"
proof -
  have zero: "rnd A 0 = Fin 0"
    and rmono: "\<And>x y. x \<le> y \<Longrightarrow> fl_le (rnd A x) (rnd A y)"
    and one: "c_pow A 1 third_d = Fin 1"
    and pw: "\<And>x y. 0 < x \<Longrightarrow> x \<le> y \<Longrightarrow>
          \<exists>p q. c_pow A x third_d = Fin p \<and> c_pow A y third_d = Fin q \<and> 0 \<le> p \<and> p \<le> q"
    using mono by (auto simp: monotone_cube_root_def)
  have mul: "fl_mul A (Fin 1.5) (Fin q) = rnd A (1.5 * q)" for q
    using zero by (simp add: fl_mul_def fl_mul_r_def)
  have pos: "impact_radius_km A (Fin m) = Inr (PyFloat (rnd A (1.5 * q)))"
    if "0 < m" "c_pow A m third_d = Fin q" for m q
    using that one mul[of q] mul[of 1] by (auto simp: radius_of_positive)
  have z: "impact_radius_km A (Fin 0) = Inr (PyFloat (rnd A (1.5 * 0)))"
    using zero by (simp add: radius_of_zero)
  show ?thesis
  proof (cases "a = 0")
    case a0: True
    show ?thesis
    proof (cases "b = 0")
      case True
      with a0 show ?thesis by (simp add: radius_of_zero)
    next
      case False
      with ab a0 have b: "0 < b" by simp
      from pw[OF b order_refl] obtain q where q: "c_pow A b third_d = Fin q" "0 \<le> q" by blast
      have "fl_le (rnd A (1.5 * 0)) (rnd A (1.5 * q))"
        using q(2) by (intro rmono) simp
      with z pos[OF b q(1)] a0 show ?thesis by blast
    qed
  next
    case False
    with ab have a: "0 < a" and b: "0 < b" by simp_all
    from pw[OF a ab(2)] obtain p q where
      pq: "c_pow A a third_d = Fin p" "c_pow A b third_d = Fin q" "p \<le> q" by blast
    have "fl_le (rnd A (1.5 * p)) (rnd A (1.5 * q))"
      using pq(3) by (intro rmono) simp
    with pos[OF a pq(1)] pos[OF b pq(2)] show ?thesis by blast
  qed
qed

lemma ideal_monotone: "monotone_cube_root ideal"
proof -
  have "x powr third_d \<le> y powr third_d" if "0 < x" "x \<le> y" for x y :: real
    using that third_bounds(1) by (intro powr_mono2) simp_all
  then show ?thesis
    by (simp add: monotone_cube_root_def)
qed

text \<open>
  C2 as stated fails below zero: at \<open>- 8\<close> megatons \<open>impact_radius_km\<close> returns a
  complex number, not the float 0.
\<close>

theorem C2_radius_negative_counterexample:
  "impact_radius_km ideal (Fin (- 8)) =
     Inr (PyComplex (cx_times ideal (Fin 1.5) (cx_pow ideal (- 8) third_d)))
   \<and> impact_radius_km ideal (Fin (- 8)) \<noteq> Inr (PyFloat (Fin 0))"
  using radius_of_negative[of "- 8" ideal] by simp

text \<open>
  C2, amended. For a finite positive input \<open>impact_radius_km\<close> returns the float product
  of 1.5 and \<open>megatons ** (1 / 3)\<close>, the power being 1 at 1 and C's \<open>pow\<close> elsewhere
  (\<open>OverflowError\<close> should \<open>pow\<close> return an infinity). At 0 it returns 0. For a finite
  negative input it returns the complex number 1.5 times Python's complex power
  \<open>megatons ** (1 / 3)\<close>, as no guard precedes the power. Over the inputs from 0 upwards
  it is monotonically non-decreasing in every arithmetic whose rounding and whose
  \<open>pow(x, 1 / 3)\<close> are monotone.
\<close>

theorem C2_radius_cube_root:
  "(\<forall>m. 0 < m \<longrightarrow> impact_radius_km A (Fin m) =
      (if m = 1 then Inr (PyFloat (fl_mul A (Fin 1.5) (Fin 1)))
       else case c_pow A m third_d of
              Fin q \<Rightarrow> Inr (PyFloat (fl_mul A (Fin 1.5) (Fin q)))
            | _ \<Rightarrow> Inl OverflowError))
   \<and> impact_radius_km A (Fin 0) = Inr (PyFloat (Fin 0))
   \<and> (\<forall>m. m < 0 \<longrightarrow> impact_radius_km A (Fin m) =
        Inr (PyComplex (cx_times A (Fin 1.5) (cx_pow A m third_d))))
   \<and> (monotone_cube_root A \<longrightarrow>
        (\<forall>a b. 0 \<le> a \<and> a \<le> b \<longrightarrow>
          (\<exists>x y. impact_radius_km A (Fin a) = Inr (PyFloat x)
             \<and> impact_radius_km A (Fin b) = Inr (PyFloat y) \<and> fl_le x y)))"
  using radius_of_positive radius_of_zero radius_of_negative radius_monotone by blast

text \<open>
  The statement of C2 in the arithmetic without rounding, at 8, 1 and \<open>- 8\<close>.
\<close>

theorem C2_radius_cube_root_witness:
  "(0::real) < 8 \<and> (- 8::real) < 0 \<and> monotone_cube_root ideal \<and> (0::real) \<le> 1 \<and> (1::real) \<le> 8
   \<and> impact_radius_km ideal (Fin 8) = Inr (PyFloat (Fin (1.5 * 8 powr third_d)))
   \<and> impact_radius_km ideal (Fin (- 8)) =
        Inr (PyComplex (cx_times ideal (Fin 1.5) (cx_pow ideal (- 8) third_d)))
   \<and> (\<exists>x y. impact_radius_km ideal (Fin 1) = Inr (PyFloat x)
         \<and> impact_radius_km ideal (Fin 8) = Inr (PyFloat y) \<and> fl_le x y)"
proof -
  have h: "(0::real) < 8" "(- 8::real) < 0" "(0::real) \<le> 1" "(1::real) \<le> 8" by simp_all
  note t = C2_radius_cube_root[of ideal]
  have "impact_radius_km ideal (Fin 8) =
      (if (8::real) = 1 then Inr (PyFloat (fl_mul ideal (Fin 1.5) (Fin 1)))
       else case c_pow ideal 8 third_d of
              Fin q \<Rightarrow> Inr (PyFloat (fl_mul ideal (Fin 1.5) (Fin q)))
            | _ \<Rightarrow> Inl OverflowError)"
    using h(1) t by blast
  then have a: "impact_radius_km ideal (Fin 8) = Inr (PyFloat (Fin (1.5 * 8 powr third_d)))"
    by simp
  have b: "impact_radius_km ideal (Fin (- 8)) =
        Inr (PyComplex (cx_times ideal (Fin 1.5) (cx_pow ideal (- 8) third_d)))"
    using h(2) t by blast
  have c: "\<exists>x y. impact_radius_km ideal (Fin 1) = Inr (PyFloat x)
         \<and> impact_radius_km ideal (Fin 8) = Inr (PyFloat y) \<and> fl_le x y"
    using h(3,4) ideal_monotone t by blast
  show ?thesis using h ideal_monotone a b c by blast
qed

section \<open>Decimal rounding and logarithms\<close>

lemma round_half_even_eq:
  assumes "of_int n - 1 / 2 < x" and "x < of_int n + 1 / 2"
  shows "round_half_even x = n"
proof (cases "of_int n \<le> x")
  case True
  with assms have "\<lfloor>x\<rfloor> = n" by (simp add: floor_eq_iff)
  with assms show ?thesis by (simp add: round_half_even_def Let_def)
next
  case False
  with assms have "\<lfloor>x\<rfloor> = n - 1" by (simp add: floor_eq_iff)
  with assms show ?thesis by (simp add: round_half_even_def Let_def)
qed

lemma decimal_round_eq:
  assumes "of_int k - 1 / 2 < x * 10 ^ n" and "x * 10 ^ n < of_int k + 1 / 2"
  shows "decimal_round x n = of_int k / 10 ^ n"
  using round_half_even_eq[OF assms] by (simp add: decimal_round_def)

lemma log10_above:
  assumes "0 < x" and "0 < q" and "10 ^ p < x ^ q"
  shows "real p / real q < log 10 x"
proof -
  have "log 10 (10 ^ p) < log 10 (x ^ q)"
    using assms by (subst log_less_cancel_iff) simp_all
  then have "real p < real q * log 10 x"
    using assms by (simp add: log_nat_power)
  then show ?thesis
    using assms by (simp add: divide_less_eq mult.commute)
qed

lemma log10_below:
  assumes "0 < x" and "0 < q" and "x ^ q < 10 ^ p"
  shows "log 10 x < real p / real q"
proof -
  have "log 10 (x ^ q) < log 10 (10 ^ p)"
    using assms by (subst log_less_cancel_iff) simp_all
  then have "real q * log 10 x < real p"
    using assms by (simp add: log_nat_power)
  then show ?thesis
    using assms by (simp add: less_divide_eq mult.commute)
qed

lemma log10_power: "log 10 ((10::real) ^ n) = real n"
  by (simp add: log_nat_power)

lemma log10_shift:
  assumes "0 < y"
  shows "log 10 (y * 10 ^ n) = log 10 y + real n"
proof -
  have "log 10 (y * 10 ^ n) = log 10 y + log 10 (10 ^ n)"
    using assms by (intro log_mult_pos) simp_all
  then show ?thesis by (simp only: log10_power)
qed

section \<open>Earthquake magnitude\<close>

lemma fl_mul_Fin: "fl_mul A (Fin a) (Fin b) = (if a * b = 0 then Fin 0 else rnd A (a * b))"
  by (simp add: fl_mul_def fl_mul_r_def)

lemma fl_mul_pos_const:
  "0 < c \<Longrightarrow> fl_mul A NegInf (Fin c) = NegInf"
  "0 < c \<Longrightarrow> fl_mul A PosInf (Fin c) = PosInf"
  "fl_mul A NaN (Fin c) = NaN"
  "0 < c \<Longrightarrow> fl_mul A (Fin c) NegInf = NegInf"
  "0 < c \<Longrightarrow> fl_mul A (Fin c) PosInf = PosInf"
  "fl_mul A (Fin c) NaN = NaN"
  by (simp_all add: fl_mul_def fl_mul_r_def)

lemma joules_nonpos:
  assumes "keeps_sign A" and "fl_le0 x"
  shows "fl_le0 (fl_mul A x (Fin 4184000000000000))"
proof (cases x)
  case (Fin m)
  with assms(2) have "m \<le> 0" by simp
  show ?thesis
  proof (cases "m = 0")
    case True
    with Fin show ?thesis by (simp add: fl_mul_Fin)
  next
    case False
    with \<open>m \<le> 0\<close> have "m * 4184000000000000 < 0" by simp
    then have "fl_le0 (rnd A (m * 4184000000000000))"
      using assms(1) unfolding keeps_sign_def by blast
    with Fin False show ?thesis by (simp add: fl_mul_Fin)
  qed
next
  case PosInf
  with assms(2) show ?thesis by simp
next
  case NegInf
  then show ?thesis by (simp add: fl_mul_pos_const)
next
  case NaN
  with assms(2) show ?thesis by simp
qed

lemma log10_of_nonpos:
  "fl_le0 e \<Longrightarrow> np_log10 A e = NegInf \<or> np_log10 A e = NaN"
  by (cases e) auto

lemma magnitude_of_nonpos:
  assumes "keeps_sign A" and "fl_le0 x"
  shows "\<not> fl_gt0 (magnitude_raw A x)"
proof -
  have c: "(0::real) < c067_d" by (simp add: c067_d_def)
  from log10_of_nonpos[OF joules_nonpos[OF assms]]
  have "np_log10 A (fl_mul A x (Fin 4184000000000000)) = NegInf
      \<or> np_log10 A (fl_mul A x (Fin 4184000000000000)) = NaN" .
  then show ?thesis
  proof
    assume "np_log10 A (fl_mul A x (Fin 4184000000000000)) = NegInf"
    then show ?thesis
      using c by (simp add: magnitude_raw_def Let_def fl_mul_pos_const)
  next
    assume "np_log10 A (fl_mul A x (Fin 4184000000000000)) = NaN"
    then show ?thesis
      by (simp add: magnitude_raw_def Let_def fl_mul_pos_const)
  qed
qed

lemma earthquake_unfold:
  "impact_earthquake_magnitude A x =
     (if fl_gt0 (magnitude_raw A x) then PyFlt (np_round A (magnitude_raw A x) 1) else PyInt 0)"
  by (simp add: impact_earthquake_magnitude_def max_zero_def)

lemma earthquake_ge0:
  assumes "keeps_sign A"
  shows "number_ge0 (impact_earthquake_magnitude A x)"
proof (cases "magnitude_raw A x")
  case (Fin r)
  show ?thesis
  proof (cases "0 < r")
    case True
    then have "fl_ge0 (np_round_fin A r 1)"
      using assms unfolding keeps_sign_def by blast
    with Fin True show ?thesis by (simp add: earthquake_unfold)
  next
    case False
    with Fin show ?thesis by (simp add: earthquake_unfold)
  qed
next
  case PosInf
  then show ?thesis by (simp add: earthquake_unfold)
next
  case NegInf
  then show ?thesis by (simp add: earthquake_unfold)
next
  case NaN
  then show ?thesis by (simp add: earthquake_unfold)
qed

lemma magnitude_raw_pos:
  "0 < m \<Longrightarrow> magnitude_raw A (Fin m) =
     fl_sub_fin A (fl_mul A (Fin c067_d) (np_log10 A (rnd A (m * 4184000000000000)))) c107_d"
  by (simp add: magnitude_raw_def Let_def fl_mul_Fin)

lemma ideal_keeps_sign: "keeps_sign ideal"
proof -
  have "0 \<le> decimal_round x n" if "0 < x" for x :: real and n
  proof -
    have "0 \<le> \<lfloor>x * 10 ^ n\<rfloor>" using that by simp
    moreover have "\<lfloor>x * 10 ^ n\<rfloor> \<le> round_half_even (x * 10 ^ n)"
      by (simp add: round_half_even_def Let_def)
    ultimately have "0 \<le> round_half_even (x * 10 ^ n)" by linarith
    then show ?thesis by (simp add: decimal_round_def)
  qed
  then show ?thesis by (simp add: keeps_sign_def)
qed

subsection \<open>At 100 megatons\<close>

lemma magnitude_raw_ideal:
  "0 < m \<Longrightarrow> magnitude_raw ideal (Fin m) =
     Fin (c067_d * log 10 (m * 4184000000000000) - c107_d)"
  by (simp add: magnitude_raw_pos)

lemma log_bounds_100:
  "17.62 < log 10 (100 * 4184000000000000)" "log 10 (100 * 4184000000000000) < 17.625"
proof -
  have "(10::real) ^ 31 < 4.184 ^ 50" by (simp add: power_divide)
  then have lo: "real 31 / real 50 < log 10 4.184"
    by (intro log10_above) simp_all
  have "(4.184::real) ^ 8 < 10 ^ 5" by (simp add: power_divide)
  then have hi: "log 10 4.184 < real 5 / real 8"
    by (intro log10_below) simp_all
  have "log 10 (4.184 * 10 ^ 17) = log 10 4.184 + real 17"
    by (rule log10_shift) simp
  moreover have "(4.184::real) * 10 ^ 17 = 100 * 4184000000000000" by simp
  ultimately have s: "log 10 (100 * 4184000000000000) = log 10 4.184 + 17"
    by simp
  show "17.62 < log 10 (100 * 4184000000000000)" using lo unfolding s by simp
  show "log 10 (100 * 4184000000000000) < 17.625" using hi unfolding s by simp
qed

lemma magnitude_bounds_100:
  "1.1 < c067_d * log 10 (100 * 4184000000000000) - c107_d"
  "c067_d * log 10 (100 * 4184000000000000) - c107_d < 1.11"
proof -
  have c: "0 < c067_d" by (simp add: c067_d_def)
  have "c067_d * 17.62 < c067_d * log 10 (100 * 4184000000000000)"
    using log_bounds_100(1) c by (simp only: mult_less_cancel_left_pos)
  moreover have "1.1 < c067_d * 17.62 - c107_d" by (simp add: c067_d_def c107_d_def)
  ultimately show "1.1 < c067_d * log 10 (100 * 4184000000000000) - c107_d" by linarith
  have "c067_d * log 10 (100 * 4184000000000000) < c067_d * 17.625"
    using log_bounds_100(2) c by (simp only: mult_less_cancel_left_pos)
  moreover have "c067_d * 17.625 - c107_d < 1.11" by (simp add: c067_d_def c107_d_def)
  ultimately show "c067_d * log 10 (100 * 4184000000000000) - c107_d < 1.11" by linarith
qed

text \<open>
  C3 as stated fails above zero: at 100 megatons the clamped magnitude lies
  strictly between 1.1 and 1.11 and \<open>impact_earthquake_magnitude\<close> returns 1.1.
\<close>

theorem C3_magnitude_rounded_counterexample:
  "impact_earthquake_magnitude ideal (Fin 100) = PyFlt (Fin (11 / 10))
   \<and> max_zero (magnitude_raw ideal (Fin 100)) \<noteq> PyFlt (Fin (11 / 10))"
proof -
  let ?m = "c067_d * log 10 (100 * 4184000000000000) - c107_d"
  have raw: "magnitude_raw ideal (Fin 100) = Fin ?m"
    by (rule magnitude_raw_ideal) simp
  have pos: "0 < ?m" and ne: "?m \<noteq> 11 / 10"
    using magnitude_bounds_100(1) by simp_all
  have "decimal_round ?m 1 = of_int 11 / 10 ^ 1"
    using magnitude_bounds_100 by (intro decimal_round_eq) simp_all
  then have r: "decimal_round ?m 1 = 11 / 10" by simp
  have a: "impact_earthquake_magnitude ideal (Fin 100) = PyFlt (Fin (11 / 10))"
    using pos r by (simp add: earthquake_unfold raw)
  have b: "max_zero (magnitude_raw ideal (Fin 100)) \<noteq> PyFlt (Fin (11 / 10))"
    using pos ne by (simp add: max_zero_def raw)
  show ?thesis using a b by blast
qed

text \<open>
  C3, amended. In every arithmetic whose rounding keeps the sign, for every float
  input \<open>impact_earthquake_magnitude\<close> returns a value that is not negative and not nan.
  For an input at or below zero the result is 0: the logarithm is taken without a preceding
  test and gives \<open>-inf\<close> or \<open>nan\<close>, neither is greater than 0, and \<open>max(0, _)\<close> keeps
  the 0. Otherwise the result is \<open>max(0, 0.67 * log10(megatons * 4.184e15) - 10.7)\<close>, computed
  in floats, rounded to one decimal place.
\<close>

theorem C3_magnitude_nonneg:
  assumes "keeps_sign A"
  shows "(\<forall>x. number_ge0 (impact_earthquake_magnitude A x))
   \<and> (\<forall>x. fl_le0 x \<longrightarrow> impact_earthquake_magnitude A x = PyInt 0
          \<and> (np_log10 A (fl_mul A x (Fin 4184000000000000)) = NegInf
             \<or> np_log10 A (fl_mul A x (Fin 4184000000000000)) = NaN))
   \<and> (\<forall>x. impact_earthquake_magnitude A x =
          (if fl_gt0 (magnitude_raw A x) then PyFlt (np_round A (magnitude_raw A x) 1)
           else PyInt 0))
   \<and> (\<forall>m. 0 < m \<longrightarrow> magnitude_raw A (Fin m) =
          fl_sub_fin A
            (fl_mul A (Fin c067_d) (np_log10 A (rnd A (m * 4184000000000000)))) c107_d)"
proof -
  have b: "impact_earthquake_magnitude A x = PyInt 0
          \<and> (np_log10 A (fl_mul A x (Fin 4184000000000000)) = NegInf
             \<or> np_log10 A (fl_mul A x (Fin 4184000000000000)) = NaN)" if "fl_le0 x" for x
    using magnitude_of_nonpos[OF assms that] log10_of_nonpos[OF joules_nonpos[OF assms that]]
    by (simp add: earthquake_unfold)
  show ?thesis
    using earthquake_ge0[OF assms] b earthquake_unfold magnitude_raw_pos by blast
qed

text \<open>
  The statement of C3 in the arithmetic without rounding, at \<open>- 1\<close> and at 100.
\<close>

theorem C3_magnitude_nonneg_witness:
  "keeps_sign ideal \<and> fl_le0 (Fin (- 1)) \<and> (0::real) < 100
   \<and> impact_earthquake_magnitude ideal (Fin (- 1)) = PyInt 0
   \<and> np_log10 ideal (fl_mul ideal (Fin (- 1)) (Fin 4184000000000000)) = NaN
   \<and> number_ge0 (impact_earthquake_magnitude ideal (Fin 100))
   \<and> magnitude_raw ideal (Fin 100) =
        fl_sub_fin ideal
          (fl_mul ideal (Fin c067_d) (np_log10 ideal (rnd ideal (100 * 4184000000000000)))) c107_d"
proof -
  have h: "fl_le0 (Fin (- 1))" "(0::real) < 100" by simp_all
  note t = C3_magnitude_nonneg[OF ideal_keeps_sign]
  have a: "impact_earthquake_magnitude ideal (Fin (- 1)) = PyInt 0"
    using h(1) t by blast
  have b: "np_log10 ideal (fl_mul ideal (Fin (- 1)) (Fin 4184000000000000)) = NaN"
    by simp
  have c: "number_ge0 (impact_earthquake_magnitude ideal (Fin 100))"
    using t by blast
  have d: "magnitude_raw ideal (Fin 100) =
        fl_sub_fin ideal
          (fl_mul ideal (Fin c067_d) (np_log10 ideal (rnd ideal (100 * 4184000000000000)))) c107_d"
    using h(2) t by blast
  show ?thesis using ideal_keeps_sign h a b c d by blast
qed

section \<open>Input validation\<close>

lemma real_pow_error: "real_pow A x y = Inl e \<Longrightarrow> e = OverflowError"
  by (cases x) (auto split: if_splits pyfloat.splits)


lemma to_float_error: "to_float A n = Inl e \<Longrightarrow> e = OverflowError"
  by (cases n) (auto simp: int_to_float_def split: if_splits pyfloat.splits)



lemma pynum_square_float:
  "pynum_square A (PyFloat r) = Inl e \<Longrightarrow> e = OverflowError"
  "pynum_square A (PyFloat r) = Inr w \<Longrightarrow> \<exists>x. w = PyFloat x"
  by (cases "real_pow A r 2"; auto dest: real_pow_error)+

lemma area_times_density_float:
  "area_times_density A \<rho> (PyFloat r) = Inl e \<Longrightarrow> e = OverflowError"
  "area_times_density A \<rho> (PyFloat r) = Inr v \<Longrightarrow> \<exists>x. v = PyFloat x"
  by (auto simp: area_times_density_def bind_err_def Let_def
      simp del: pynum_square.simps
      split: sum.splits dest: pynum_square_float to_float_error)

lemma population_float_cases:
  "(\<exists>a. area_times_density A \<rho> (PyFloat r) = Inr (PyFloat (Fin a))
        \<and> population_affected A \<rho> (PyFloat r) = Inr (trunc a))
   \<or> population_affected A \<rho> (PyFloat r) = Inl OverflowError
   \<or> population_affected A \<rho> (PyFloat r) = Inl ValueError"
proof (cases "area_times_density A \<rho> (PyFloat r)")
  case (Inl e)
  with area_times_density_float(1)[OF Inl] show ?thesis
    by (simp add: population_affected_def)
next
  case (Inr v)
  from area_times_density_float(2)[OF Inr] obtain x where "v = PyFloat x" ..
  with Inr show ?thesis
    by (cases x) (simp_all add: population_affected_def)
qed

lemma population_ideal_float:
  "population_affected ideal (PyInt n) (PyFloat (Fin r)) = Inr (trunc (of_int n * (pi_d * r\<^sup>2)))"
  by (simp add: population_affected_def area_times_density_def Let_def del: real_pow.simps)




section \<open>The default request\<close>

lemma default_energy:
  "asteroid_kinetic_energy ideal (PyInt 50) (PyInt 20) (PyInt 3000) =
     Inr (Fin (four_thirds_d * pi_d * 9375000000000000 / 4184000000000000))"
  unfolding energy_ideal_int by (simp add: power_divide)

lemma default_energy_pos: "0 < four_thirds_d * pi_d * 9375000000000000 / 4184000000000000"
  by (simp add: four_thirds_d_def pi_d_def)

lemma population_of_ideal:
  "population_of ideal (JNum (PyInt n)) (PyFloat (Fin r)) = Inr (trunc (of_int n * (pi_d * r\<^sup>2)))"
  by (simp only: population_of_def as_number.simps option.case population_ideal_float)

lemma simulate_runs:
  assumes "kinetic_energy_of A (dict_get (req_diameter_m data) (JNum (PyInt 50)))
      (dict_get (req_velocity_km_s data) (JNum (PyInt 20))) = Inr energy"
    and "impact_radius_km A energy = Inr (PyFloat r)"
    and "population_of A (dict_get (req_pop_density_per_km2 data) (JNum (PyInt 1000))) (PyFloat r) = Inr p"
    and "as_number (dict_get (req_latitude data) JNull) = Some la"
    and "as_number (dict_get (req_longitude data) JNull) = Some lo"
  shows "\<exists>e. simulate_impact A rnd_id data fs = (Inr e, save_impact e fs)
           \<and> ev_energy_megatons e = py_round A energy 2
           \<and> ev_earthquake_magnitude e = impact_earthquake_magnitude A energy"
  using assms by (simp add: simulate_impact_def Let_def jval_round_def)

lemma simulate_default:
  "\<exists>e. simulate_impact ideal rnd_id default_request fs = (Inr e, save_impact e fs)
       \<and> ev_earthquake_magnitude e = impact_earthquake_magnitude ideal
            (Fin (four_thirds_d * pi_d * 9375000000000000 / 4184000000000000))"
proof -
  let ?E = "four_thirds_d * pi_d * 9375000000000000 / 4184000000000000"
  have k: "kinetic_energy_of ideal (dict_get (req_diameter_m default_request) (JNum (PyInt 50)))
      (dict_get (req_velocity_km_s default_request) (JNum (PyInt 20))) = Inr (Fin ?E)"
    by (simp add: default_request_def kinetic_energy_of_def default_energy)
  have r: "impact_radius_km ideal (Fin ?E) = Inr (PyFloat (Fin (1.5 * ?E powr third_d)))"
    using default_energy_pos by (intro radius_ideal) simp
  have p: "population_of ideal (dict_get (req_pop_density_per_km2 default_request) (JNum (PyInt 1000)))
      (PyFloat (Fin (1.5 * ?E powr third_d)))
        = Inr (trunc (of_int 1000 * (pi_d * (1.5 * ?E powr third_d)\<^sup>2)))"
    by (simp add: default_request_def population_of_ideal)
  show ?thesis
    using simulate_runs[OF k r p, of "PyInt 0" "PyInt 0" rnd_id fs]
    by (auto simp: default_request_def)
qed

text \<open>
  The statement of C10 on the empty request body, where the hazard
  calculations succeed.
\<close>

theorem C10_null_coordinate_fails_witness:
  "req_latitude empty_request = None
   \<and> simulate_impact ideal 12345 empty_request (Stored [example_impact])
       = (Inl Round_undefined, Stored [example_impact])"
proof -
  let ?E = "four_thirds_d * pi_d * 9375000000000000 / 4184000000000000"
  have h: "req_latitude empty_request = None"
    by (simp add: empty_request_def)
  have k: "kinetic_energy_of ideal (dict_get (req_diameter_m empty_request) (JNum (PyInt 50)))
      (dict_get (req_velocity_km_s empty_request) (JNum (PyInt 20))) = Inr (Fin ?E)"
    by (simp add: empty_request_def kinetic_energy_of_def default_energy)
  have r: "impact_radius_km ideal (Fin ?E) = Inr (PyFloat (Fin (1.5 * ?E powr third_d)))"
    using default_energy_pos by (intro radius_ideal) simp
  have p: "population_of ideal (dict_get (req_pop_density_per_km2 empty_request) (JNum (PyInt 1000)))
      (PyFloat (Fin (1.5 * ?E powr third_d)))
        = Inr (trunc (of_int 1000 * (pi_d * (1.5 * ?E powr third_d)\<^sup>2)))"
    by (simp add: empty_request_def population_of_ideal)
  have c: "snd (simulate_impact ideal 12345 empty_request (Stored [example_impact])) = Stored [example_impact]
     \<and> fst (simulate_impact ideal 12345 empty_request (Stored [example_impact])) = Inl Round_undefined"
    using C10_null_coordinate_fails[of empty_request ideal 12345 "Stored [example_impact]"] h k r p
    by blast
  then have "simulate_impact ideal 12345 empty_request (Stored [example_impact])
       = (Inl Round_undefined, Stored [example_impact])"
    by (simp add: prod_eq_iff)
  with h show ?thesis by blast
qed

lemma default_joules:
  "four_thirds_d * pi_d * 9375000000000000 / 4184000000000000 * 4184000000000000
     = four_thirds_d * pi_d * (15 / 16) * 10 ^ 16"
  by simp

lemma default_log_bounds:
  "16.59 < log 10 (four_thirds_d * pi_d * (15 / 16) * 10 ^ 16)"
  "log 10 (four_thirds_d * pi_d * (15 / 16) * 10 ^ 16) < 16.6"
proof -
  let ?y = "four_thirds_d * pi_d * (15 / 16)"
  have y: "3.9 < ?y" "?y < 3.927" by (simp_all add: four_thirds_d_def pi_d_def)
  have pos: "0 < ?y" using y(1) by linarith
  have "(10::real) ^ 59 < 3.9 ^ 100" by (simp add: power_divide)
  also have "\<dots> < ?y ^ 100" using y(1) by (intro power_strict_mono) simp_all
  finally have lo: "real 59 / real 100 < log 10 ?y"
    by (intro log10_above pos) simp_all
  have "?y ^ 5 < 3.927 ^ 5" using y(2) pos by (intro power_strict_mono) simp_all
  also have "\<dots> < (10::real) ^ 3" by (simp add: power_divide)
  finally have hi: "log 10 ?y < real 3 / real 5"
    by (intro log10_below pos) simp_all
  have s: "log 10 (?y * 10 ^ 16) = log 10 ?y + real 16"
    using pos by (rule log10_shift)
  show "16.59 < log 10 (?y * 10 ^ 16)" using lo unfolding s by simp
  show "log 10 (?y * 10 ^ 16) < 16.6" using hi unfolding s by simp
qed

lemma default_magnitude_bounds:
  "0.415 < c067_d * log 10 (four_thirds_d * pi_d * (15 / 16) * 10 ^ 16) - c107_d"
  "c067_d * log 10 (four_thirds_d * pi_d * (15 / 16) * 10 ^ 16) - c107_d < 0.425"
proof -
  let ?L = "log 10 (four_thirds_d * pi_d * (15 / 16) * 10 ^ 16)"
  have c: "0 < c067_d" by (simp add: c067_d_def)
  have "c067_d * 16.59 < c067_d * ?L"
    using default_log_bounds(1) c by (simp only: mult_less_cancel_left_pos)
  moreover have "0.415 < c067_d * 16.59 - c107_d" by (simp add: c067_d_def c107_d_def)
  ultimately show "0.415 < c067_d * ?L - c107_d" by linarith
  have "c067_d * ?L < c067_d * 16.6"
    using default_log_bounds(2) c by (simp only: mult_less_cancel_left_pos)
  moreover have "c067_d * 16.6 - c107_d < 0.425" by (simp add: c067_d_def c107_d_def)
  ultimately show "c067_d * ?L - c107_d < 0.425" by linarith
qed

lemma default_magnitude_raw:
  "magnitude_raw ideal (Fin (four_thirds_d * pi_d * 9375000000000000 / 4184000000000000)) =
     Fin (c067_d * log 10 (four_thirds_d * pi_d * (15 / 16) * 10 ^ 16) - c107_d)"
  using default_energy_pos by (simp only: magnitude_raw_ideal default_joules)

lemma default_magnitude_one_decimal:
  "impact_earthquake_magnitude ideal
     (Fin (four_thirds_d * pi_d * 9375000000000000 / 4184000000000000)) = PyFlt (Fin (2 / 5))"
proof -
  let ?m = "c067_d * log 10 (four_thirds_d * pi_d * (15 / 16) * 10 ^ 16) - c107_d"
  have "decimal_round ?m 1 = of_int 4 / 10 ^ 1"
    using default_magnitude_bounds by (intro decimal_round_eq) simp_all
  then have r: "decimal_round ?m 1 = 2 / 5" by simp
  have pos: "0 < ?m" using default_magnitude_bounds(1) by simp
  show ?thesis
    by (simp only: earthquake_unfold default_magnitude_raw fl_gt0.simps pos if_True
        np_round.simps ideal_np_round_fin r)
qed

lemma default_magnitude_two_decimals:
  "round_magnitude ideal (max_zero (magnitude_raw ideal
     (Fin (four_thirds_d * pi_d * 9375000000000000 / 4184000000000000)))) 2 = PyFlt (Fin (21 / 50))"
proof -
  let ?m = "c067_d * log 10 (four_thirds_d * pi_d * (15 / 16) * 10 ^ 16) - c107_d"
  have "decimal_round ?m 2 = of_int 42 / 10 ^ 2"
    using default_magnitude_bounds by (intro decimal_round_eq) simp_all
  then have r: "decimal_round ?m 2 = 21 / 50" by simp
  have pos: "0 < ?m" using default_magnitude_bounds(1) by simp
  show ?thesis
    by (simp only: max_zero_def default_magnitude_raw fl_gt0.simps pos if_True
        round_magnitude.simps np_round.simps ideal_np_round_fin r)
qed

section \<open>Rounding in the payload\<close>

lemma kinetic_energy_of_Inr:
  "kinetic_energy_of A diameter velocity = Inr energy \<Longrightarrow>
     \<exists>d v. as_number diameter = Some d \<and> as_number velocity = Some v
        \<and> asteroid_kinetic_energy A d v (PyInt 3000) = Inr energy"
  by (auto simp: kinetic_energy_of_def bind_err_def split: option.splits sum.splits)

lemma population_of_Inr:
  assumes "population_of A pop_density (PyFloat r) = Inr n"
  shows "\<exists>p a. as_number pop_density = Some p
        \<and> area_times_density A p (PyFloat r) = Inr (PyFloat (Fin a)) \<and> n = trunc a"
proof -
  from assms obtain p where p: "as_number pop_density = Some p"
    and pa: "population_affected A p (PyFloat r) = Inr n"
    by (auto simp: population_of_def bind_err_def split: option.splits sum.splits)
  from population_float_cases[of A p r] pa
  obtain a where "area_times_density A p (PyFloat r) = Inr (PyFloat (Fin a))" "n = trunc a"
    by auto
  with p show ?thesis by blast
qed

lemma simulate_success:
  assumes "simulate_impact A rnd_id data fs = (Inr e, fs')"
  shows "\<exists>energy radius.
       kinetic_energy_of A (dict_get (req_diameter_m data) (JNum (PyInt 50)))
         (dict_get (req_velocity_km_s data) (JNum (PyInt 20))) = Inr energy
     \<and> impact_radius_km A energy = Inr (PyFloat radius)
     \<and> population_of A (dict_get (req_pop_density_per_km2 data) (JNum (PyInt 1000)))
          (PyFloat radius) = Inr (ev_population_affected e)
     \<and> ev_energy_megatons e = py_round A energy 2
     \<and> ev_impact_radius_km e = py_round A radius 2
     \<and> ev_earthquake_magnitude e = impact_earthquake_magnitude A energy"
proof -
  let ?k = "kinetic_energy_of A (dict_get (req_diameter_m data) (JNum (PyInt 50)))
         (dict_get (req_velocity_km_s data) (JNum (PyInt 20)))"
  obtain energy where k: "?k = Inr energy"
    using assms simulate_energy_error[of A data] by (cases ?k) auto
  obtain rk where r: "impact_radius_km A energy = Inr rk"
    using assms simulate_radius_error[OF k] by (cases "impact_radius_km A energy") auto
  obtain n where p: "population_of A (dict_get (req_pop_density_per_km2 data) (JNum (PyInt 1000))) rk = Inr n"
    using assms simulate_population_error[OF k r]
    by (cases "population_of A (dict_get (req_pop_density_per_km2 data) (JNum (PyInt 1000))) rk") auto
  from assms k r p obtain radius where rk: "rk = PyFloat radius"
    by (cases rk) (auto simp: simulate_impact_def Let_def jval_round_def bind_err_def
        split: option.splits sum.splits)
  from assms k r p rk have
    "ev_population_affected e = n
     \<and> ev_energy_megatons e = py_round A energy 2
     \<and> ev_impact_radius_km e = py_round A radius 2
     \<and> ev_earthquake_magnitude e = impact_earthquake_magnitude A energy"
    by (auto simp: simulate_impact_def Let_def jval_round_def bind_err_def
        split: option.splits sum.splits)
  with k r p rk show ?thesis by blast
qed

text \<open>
  C9 as stated fails for the magnitude: with a diameter of 50 m at 20 km/s the
  payload carries the magnitude 0.4, while the clamped magnitude rounded to two decimal
  places is 0.42.
\<close>

theorem C9_magnitude_one_decimal_counterexample:
  "map_sum id ev_earthquake_magnitude (fst (simulate_impact ideal 12345 default_request Missing))
     = Inr (PyFlt (Fin (2 / 5)))
   \<and> map_sum id (\<lambda>energy. round_magnitude ideal (max_zero (magnitude_raw ideal energy)) 2)
       (asteroid_kinetic_energy ideal (PyInt 50) (PyInt 20) (PyInt 3000))
     = Inr (PyFlt (Fin (21 / 50)))"
proof -
  obtain e where e: "simulate_impact ideal 12345 default_request Missing = (Inr e, save_impact e Missing)"
    and m: "ev_earthquake_magnitude e = impact_earthquake_magnitude ideal
            (Fin (four_thirds_d * pi_d * 9375000000000000 / 4184000000000000))"
    using simulate_default[of 12345 Missing] by blast
  have "ev_earthquake_magnitude e = PyFlt (Fin (2 / 5))"
    using m by (simp only: default_magnitude_one_decimal)
  with e have a: "map_sum id ev_earthquake_magnitude
      (fst (simulate_impact ideal 12345 default_request Missing)) = Inr (PyFlt (Fin (2 / 5)))"
    by simp
  have b: "map_sum id (\<lambda>energy. round_magnitude ideal (max_zero (magnitude_raw ideal energy)) 2)
       (asteroid_kinetic_energy ideal (PyInt 50) (PyInt 20) (PyInt 3000))
     = Inr (PyFlt (Fin (21 / 50)))"
    by (simp only: default_energy map_sum.simps default_magnitude_two_decimals)
  show ?thesis using a b by blast
qed

text \<open>
  C9, amended. In every payload \<open>simulate_impact\<close> returns, in every arithmetic, the
  energy and the radius are the hazard results rounded to two decimal places by
  \<open>round\<close>, the magnitude is the clamped magnitude rounded to one decimal place, and the
  population is the truncation of the float product \<open>pi * radius ** 2 * density\<close> computed
  from the unrounded radius.
\<close>

theorem C9_payload_rounding:
  assumes "simulate_impact A rnd_id data fs = (Inr e, fs')"
  shows "\<exists>d v p energy radius a.
       as_number (dict_get (req_diameter_m data) (JNum (PyInt 50))) = Some d
     \<and> as_number (dict_get (req_velocity_km_s data) (JNum (PyInt 20))) = Some v
     \<and> as_number (dict_get (req_pop_density_per_km2 data) (JNum (PyInt 1000))) = Some p
     \<and> asteroid_kinetic_energy A d v (PyInt 3000) = Inr energy
     \<and> impact_radius_km A energy = Inr (PyFloat radius)
     \<and> ev_energy_megatons e = py_round A energy 2
     \<and> ev_impact_radius_km e = py_round A radius 2
     \<and> ev_earthquake_magnitude e =
          (if fl_gt0 (magnitude_raw A energy)
           then PyFlt (np_round A (magnitude_raw A energy) 1) else PyInt 0)
     \<and> area_times_density A p (PyFloat radius) = Inr (PyFloat (Fin a))
     \<and> ev_population_affected e = trunc a"
proof -
  from simulate_success[OF assms] obtain energy radius where
    k: "kinetic_energy_of A (dict_get (req_diameter_m data) (JNum (PyInt 50)))
         (dict_get (req_velocity_km_s data) (JNum (PyInt 20))) = Inr energy"
    and r: "impact_radius_km A energy = Inr (PyFloat radius)"
    and p: "population_of A (dict_get (req_pop_density_per_km2 data) (JNum (PyInt 1000)))
          (PyFloat radius) = Inr (ev_population_affected e)"
    and f: "ev_energy_megatons e = py_round A energy 2"
      "ev_impact_radius_km e = py_round A radius 2"
      "ev_earthquake_magnitude e = impact_earthquake_magnitude A energy"
    by blast
  from kinetic_energy_of_Inr[OF k] obtain d v where
    dv: "as_number (dict_get (req_diameter_m data) (JNum (PyInt 50))) = Some d"
      "as_number (dict_get (req_velocity_km_s data) (JNum (PyInt 20))) = Some v"
      "asteroid_kinetic_energy A d v (PyInt 3000) = Inr energy"
    by blast
  from population_of_Inr[OF p] obtain q a where
    qa: "as_number (dict_get (req_pop_density_per_km2 data) (JNum (PyInt 1000))) = Some q"
      "area_times_density A q (PyFloat radius) = Inr (PyFloat (Fin a))"
      "ev_population_affected e = trunc a"
    by blast
  have m: "ev_earthquake_magnitude e =
          (if fl_gt0 (magnitude_raw A energy)
           then PyFlt (np_round A (magnitude_raw A energy) 1) else PyInt 0)"
    using f(3) by (simp only: earthquake_unfold)
  show ?thesis using dv qa r f(1,2) m by blast
qed

text \<open>
  The statement of C9 on the request with coordinates 0 and the default
  diameter, velocity and density.
\<close>

theorem C9_payload_rounding_witness:
  "\<exists>e fs'. simulate_impact ideal 12345 default_request Missing = (Inr e, fs')
     \<and> ev_energy_megatons e =
          py_round ideal (Fin (four_thirds_d * pi_d * 9375000000000000 / 4184000000000000)) 2
     \<and> ev_earthquake_magnitude e = PyFlt (Fin (2 / 5))"
proof -
  let ?E = "four_thirds_d * pi_d * 9375000000000000 / 4184000000000000"
  obtain e where e: "simulate_impact ideal 12345 default_request Missing = (Inr e, save_impact e Missing)"
    using simulate_default[of 12345 Missing] by blast
  from C9_payload_rounding[OF e] obtain d v energy where
    dv: "as_number (dict_get (req_diameter_m default_request) (JNum (PyInt 50))) = Some d"
      "as_number (dict_get (req_velocity_km_s default_request) (JNum (PyInt 20))) = Some v"
      "asteroid_kinetic_energy ideal d v (PyInt 3000) = Inr energy"
    and f: "ev_energy_megatons e = py_round ideal energy 2"
      "ev_earthquake_magnitude e =
          (if fl_gt0 (magnitude_raw ideal energy)
           then PyFlt (np_round ideal (magnitude_raw ideal energy) 1) else PyInt 0)"
    by blast
  have d: "d = PyInt 50" and v: "v = PyInt 20"
    using dv(1,2) by (simp_all add: default_request_def)
  from dv(3) have "asteroid_kinetic_energy ideal (PyInt 50) (PyInt 20) (PyInt 3000) = Inr energy"
    unfolding d v .
  then have "Inr (Fin ?E) = (Inr energy :: py_error + pyfloat)"
    unfolding default_energy .
  then have "Fin ?E = energy" by (simp only: sum.inject)
  then have "energy = Fin ?E" by (rule sym)
  with f have "ev_energy_megatons e = py_round ideal (Fin ?E) 2"
    and "ev_earthquake_magnitude e = impact_earthquake_magnitude ideal (Fin ?E)"
    by (simp_all only: earthquake_unfold)
  then have "ev_energy_megatons e = py_round ideal (Fin ?E) 2
     \<and> ev_earthquake_magnitude e = PyFlt (Fin (2 / 5))"
    by (simp only: default_magnitude_one_decimal)
  with e show ?thesis by blast
qed

end
